theory Spec2Isabelle
  imports Complex_Main
begin

section \<open>JavaScript strings and objects\<close>

text \<open>
  A JavaScript string is modelled as a \<^typ>\<open>string\<close>: the list of its code units, for
  strings whose code units are below 256. The functions below are the methods of
  \<open>String.prototype\<close> that \<open>build.mjs\<close> and the launcher script call, with the
  receiver as first argument.
\<close>

definition is_ws :: "char \<Rightarrow> bool" where
  \<comment> \<open>white space and line terminators, as \<open>trim\<close> and the class \<open>\s\<close> see them\<close>
  "is_ws c = (c \<in> set [CHR 0x09, CHR 0x0A, CHR 0x0B, CHR 0x0C, CHR 0x0D, CHR 0x20, CHR 0xA0])"

definition is_line_terminator :: "char \<Rightarrow> bool" where
  \<comment> \<open>what the pattern \<open>.\<close> refuses\<close>
  "is_line_terminator c = (c = CHR 0x0A \<or> c = CHR 0x0D)"

definition trim :: "string \<Rightarrow> string" where
  "trim s = rev (dropWhile is_ws (rev (dropWhile is_ws s)))"

fun startsWith :: "string \<Rightarrow> string \<Rightarrow> bool" where
  "startsWith s [] = True"
| "startsWith [] (p # ps) = False"
| "startsWith (c # cs) (p # ps) = (c = p \<and> startsWith cs ps)"

definition endsWith :: "string \<Rightarrow> string \<Rightarrow> bool" where
  "endsWith s p = startsWith (rev s) (rev p)"

fun includes_str :: "string \<Rightarrow> string \<Rightarrow> bool" where
  "includes_str [] p = (p = [])"
| "includes_str (c # cs) p = (startsWith (c # cs) p \<or> includes_str cs p)"

fun split_where :: "(char \<Rightarrow> bool) \<Rightarrow> string \<Rightarrow> string list" where
  "split_where sep [] = [ [] ]"
| "split_where sep (c # cs) =
     (if sep c then [] # split_where sep cs
      else (case split_where sep cs of
              [] \<Rightarrow> [ [c] ]
            | x # xs \<Rightarrow> (c # x) # xs))"

definition split_on :: "char \<Rightarrow> string \<Rightarrow> string list" where
  \<comment> \<open>\<open>s.split(sep)\<close> for a separator of one character\<close>
  "split_on sep s = split_where (\<lambda>c. c = sep) s"

definition pop :: "string list \<Rightarrow> string" where
  \<comment> \<open>\<open>.pop()\<close> on the result of a split, which is never empty\<close>
  "pop xs = (case rev xs of [] \<Rightarrow> [] | x # _ \<Rightarrow> x)"

definition slice_1_m1 :: "string \<Rightarrow> string" where
  \<comment> \<open>\<open>s.slice(1, -1)\<close>\<close>
  "slice_1_m1 s = butlast (tl s)"

definition truthy :: "string \<Rightarrow> bool" where
  \<comment> \<open>a string in a boolean position: the empty string is falsy\<close>
  "truthy s = (s \<noteq> [])"

definition or_else :: "string option \<Rightarrow> string \<Rightarrow> string" where
  \<comment> \<open>\<open>a || b\<close> where \<open>a\<close> is a string or \<open>undefined\<close>\<close>
  "or_else a b = (case a of None \<Rightarrow> b | Some s \<Rightarrow> if truthy s then s else b)"

text \<open>
  An object literal used as a lookup table is a finite map. The platform and
  architecture identifiers that Node reports (\<open>process.platform\<close>, \<open>process.arch\<close>) are
  never names of inherited properties of \<open>Object.prototype\<close>, so a key missing from the
  literal reads as \<open>undefined\<close>, here \<^term>\<open>None\<close>.

  Assignment \<open>obj[key] = value\<close> of a string to a plain object creates or overwrites an
  own property, except for the key \<open>__proto__\<close>: there the inherited setter runs, and it
  ignores a value that is neither an object nor \<open>null\<close>.
\<close>

type_synonym obj = "string \<rightharpoonup> string"

definition obj_set :: "obj \<Rightarrow> string \<Rightarrow> string \<Rightarrow> obj" where
  "obj_set ob k v = (if k = ''__proto__'' then ob else ob(k \<mapsto> v))"


section \<open>The launcher script\<close>

subsection \<open>Reading the configuration file\<close>

definition match_kv :: "string \<Rightarrow> (string \<times> string) option" where
  \<comment> \<open>\<open>line.match(/^([^=]+)=(.*)$/)\<close>: the two groups, or \<open>null\<close>\<close>
  "match_kv line =
     (let k = takeWhile (\<lambda>c. c \<noteq> CHR ''='') line;
          rest = dropWhile (\<lambda>c. c \<noteq> CHR ''='') line
      in if k = [] \<or> rest = [] then None
         else if list_ex is_line_terminator (tl rest) then None
         else Some (k, tl rest))"

definition strip_quotes :: "string \<Rightarrow> string" where
  "strip_quotes v =
     (if (startsWith v [CHR 0x22] \<and> endsWith v [CHR 0x22]) \<or>
         (startsWith v [CHR 0x27] \<and> endsWith v [CHR 0x27])
      then slice_1_m1 v else v)"

definition env_line :: "obj \<Rightarrow> string \<Rightarrow> obj" where
  \<comment> \<open>the callback of \<open>forEach\<close>, lines 891 to 910\<close>
  "env_line config line0 =
     (let line = trim line0
      in if \<not> truthy line \<or> startsWith line ''#'' then config
         else (case match_kv line of
                 None \<Rightarrow> config
               | Some (m1, m2) \<Rightarrow>
                   (let key = trim m1;
                        v = strip_quotes (trim m2)
                    in obj_set config key v)))"

text \<open>
  For stating what a well-formed line contributes: a key as a configuration file writes
  it, with no \<open>=\<close>, no white space at either end and no \<open>#\<close> in front, other than
  \<open>__proto__\<close>; a value on one line with no white space at either end; and a value
  that is not enclosed in a pair of equal quotes.
\<close>

definition plain_key :: "string \<Rightarrow> bool" where
  "plain_key k =
     (k \<noteq> [] \<and> CHR ''='' \<notin> set k \<and> \<not> is_ws (hd k) \<and> \<not> is_ws (last k) \<and>
      hd k \<noteq> CHR ''#'' \<and> k \<noteq> ''__proto__'')"

definition plain_value :: "string \<Rightarrow> bool" where
  "plain_value v =
     (\<not> list_ex is_line_terminator v \<and> (v \<noteq> [] \<longrightarrow> \<not> is_ws (hd v) \<and> \<not> is_ws (last v)))"

definition unquoted :: "string \<Rightarrow> bool" where
  "unquoted v =
     (\<not> (startsWith v [CHR 0x22] \<and> endsWith v [CHR 0x22]) \<and>
      \<not> (startsWith v [CHR 0x27] \<and> endsWith v [CHR 0x27]))"

definition parse_env :: "string \<Rightarrow> obj" where
  "parse_env envContent = foldl env_line Map.empty (split_on CHR 0x0A envContent)"

text \<open>
  The host of the launcher: what the script reads from Node and from the file system.
  \<open>path.join\<close> is a library function and is taken as a parameter. Library calls that
  the script does not guard (\<open>readFileSync\<close> after the existence check) are taken to
  complete normally.
\<close>

record host =
  h_platform :: string
  h_arch :: string
  h_dirname :: string
  h_join :: "string \<Rightarrow> string \<Rightarrow> string"
  h_existsSync :: "string \<Rightarrow> bool"
  h_readFileSync :: "string \<Rightarrow> string"
  h_env :: obj

text \<open>
  What the launcher writes to its console, one constructor for each message of the
  script with the values it interpolates, and what else it does to the outside.
\<close>

datatype message =
    ConfigNotFound string
  | Starting
  | ConfigInfo string string string string
  | UnsupportedPlatform string string
  | ExeNotFound string string
  | UsingExe string
  | SpawnFailed string
  | ChildExited int
  | ChildSignalled string
  | Stopping

datatype action =
    Print message
  | Spawn string obj
  | Kill string

text \<open>A function of the script either returns or ends the process by \<open>process.exit\<close>.\<close>

datatype 'a completion = Exit int | Return 'a

definition loadEnv :: "host \<Rightarrow> string \<Rightarrow> action list \<times> obj completion" where
  "loadEnv h envPath =
     (if \<not> h_existsSync h envPath
      then ([Print (ConfigNotFound envPath)], Exit 1)
      else ([], Return (parse_env (h_readFileSync h envPath))))"

subsection \<open>Locating the executable\<close>

definition platformMap :: obj where
  "platformMap = [''win32'' \<mapsto> ''windows'', ''linux'' \<mapsto> ''linux'', ''darwin'' \<mapsto> ''darwin'']"

definition archMap :: obj where
  "archMap = [''x64'' \<mapsto> ''amd64'', ''arm64'' \<mapsto> ''arm64'']"

definition getExecutablePath :: "host \<Rightarrow> action list \<times> string completion" where
  "getExecutablePath h =
     (let platform = h_platform h;
          arch = h_arch h
      in case (platformMap platform, archMap arch) of
           (Some platformName, Some archName) \<Rightarrow>
             (if \<not> truthy platformName \<or> \<not> truthy archName
              then ([Print (UnsupportedPlatform platform arch)], Exit 1)
              else
                let exeName = (if platform = ''win32''
                               then ''new-api-'' @ platformName @ ''-'' @ archName @ ''.exe''
                               else ''new-api-'' @ platformName @ ''-'' @ archName);
                    exePath = h_join h (h_dirname h) exeName
                in if \<not> h_existsSync h exePath
                   then ([Print (ExeNotFound exeName (h_dirname h))], Exit 1)
                   else ([], Return exePath))
         | _ \<Rightarrow> ([Print (UnsupportedPlatform platform arch)], Exit 1))"

subsection \<open>The script\<close>

text \<open>
  The state of the launcher process: what it has done so far, and its exit status once it
  has ended. After the synchronous part of the script the process waits for events: the
  child's \<open>error\<close> and \<open>exit\<close> events, and the signals \<open>SIGINT\<close> and \<open>SIGTERM\<close> sent to
  the launcher itself.
\<close>

record launcher =
  trace :: "action list"
  status :: "int option"

datatype event =
    ChildError string
  | ChildExit "int option" "string option"
  | SIGINT
  | SIGTERM

definition code_or_0 :: "int option \<Rightarrow> int" where
  \<comment> \<open>\<open>code || 0\<close>, where \<open>code\<close> is a number or \<open>null\<close>\<close>
  "code_or_0 code = (case code of None \<Rightarrow> 0 | Some c \<Rightarrow> if c \<noteq> 0 then c else 0)"

definition do_actions :: "action list \<Rightarrow> launcher \<Rightarrow> launcher" where
  "do_actions as l = l\<lparr>trace := trace l @ as\<rparr>"

definition process_exit :: "int \<Rightarrow> launcher \<Rightarrow> launcher" where
  "process_exit n l = l\<lparr>status := Some n\<rparr>"

definition config_info :: "obj \<Rightarrow> message" where
  \<comment> \<open>lines 921 to 924; the labels of the defaults are glosses of the source's\<close>
  "config_info config =
     ConfigInfo
       (or_else (config ''PORT'') ''3000 (default)'')
       (if config ''SQL_DSN'' = Some ''local'' then ''SQLite''
        else or_else (config ''SQL_DSN'') ''SQLite (default)'')
       (if or_else (config ''REDIS_CONN_STRING'') [] \<noteq> [] then ''enabled'' else ''disabled'')
       (or_else (config ''TZ'') ''UTC (default)'')"

definition is_path_sep :: "char \<Rightarrow> bool" where
  \<comment> \<open>the class \<open>[/\\]\<close>\<close>
  "is_path_sep c = (c = CHR ''/'' \<or> c = CHR 0x5C)"

definition start :: "host \<Rightarrow> launcher" where
  \<comment> \<open>the synchronous part, lines 916 to 980\<close>
  "start h =
     (let l0 = \<lparr>trace = [], status = None\<rparr>;
          envPath = h_join h (h_dirname h) ''.env''
      in case loadEnv h envPath of
           (as, Exit n) \<Rightarrow> process_exit n (do_actions as l0)
         | (as, Return config) \<Rightarrow>
             (let l1 = do_actions (as @ [Print Starting, Print (config_info config)]) l0
              in case getExecutablePath h of
                   (bs, Exit n) \<Rightarrow> process_exit n (do_actions bs l1)
                 | (bs, Return exePath) \<Rightarrow>
                     do_actions
                       (bs @ [Print (UsingExe (h_join h (h_dirname h)
                                 (pop (split_where is_path_sep exePath)))),
                              Spawn exePath (h_env h ++ config)])
                       l1))"

fun on_event :: "launcher \<Rightarrow> event \<Rightarrow> launcher" where
  "on_event l (ChildError msg) = process_exit 1 (do_actions [Print (SpawnFailed msg)] l)"
| "on_event l (ChildExit code signal) =
     process_exit (code_or_0 code)
       (do_actions
          (case code of
             Some c \<Rightarrow> [Print (ChildExited c)]
           | None \<Rightarrow> (case signal of Some s \<Rightarrow> [Print (ChildSignalled s)] | None \<Rightarrow> []))
          l)"
| "on_event l SIGINT = do_actions [Print Stopping, Kill ''SIGINT''] l"
| "on_event l SIGTERM = do_actions [Print Stopping, Kill ''SIGTERM''] l"

definition handle :: "launcher \<Rightarrow> event \<Rightarrow> launcher" where
  \<comment> \<open>a process that has ended handles nothing more\<close>
  "handle l e = (if status l = None then on_event l e else l)"

definition run_launcher :: "host \<Rightarrow> event list \<Rightarrow> launcher" where
  "run_launcher h evs = foldl handle (start h) evs"

fun is_spawn :: "action \<Rightarrow> bool" where
  "is_spawn (Spawn _ _) = True"
| "is_spawn _ = False"

definition spawned :: "launcher \<Rightarrow> bool" where
  \<comment> \<open>the process has called \<open>spawn\<close>\<close>
  "spawned l = list_ex is_spawn (trace l)"

definition is_signal :: "event \<Rightarrow> bool" where
  "is_signal e = (e = SIGINT \<or> e = SIGTERM)"


definition linux_host :: host where
  \<comment> \<open>a host for the examples: Linux on x64, every file present\<close>
  \<open>linux_host =
     \<lparr>h_platform = ''linux'', h_arch = ''x64'', h_dirname = ''/opt/new-api'',
      h_join = (\<lambda>d f. d @ ''/'' @ f), h_existsSync = (\<lambda>p. True),
      h_readFileSync = (\<lambda>p. ''# settings'' @ [CHR 0x0A] @ ''PORT="8080"'' @ [CHR 0x0A] @
                             [CHR 0x0A] @ ''malformed line'' @ [CHR 0x0A] @ ''TZ = 'UTC' ''),
      h_env = [''HOME'' \<mapsto> ''/root'']\<rparr>\<close>


definition sample_env :: string where
  \<comment> \<open>a configuration file for the examples, of six lines\<close>
  \<open>sample_env =
     ''# settings'' @ [CHR 0x0A] @ ''PORT="8080"'' @ [CHR 0x0A] @ [CHR 0x0A] @
     ''malformed line'' @ [CHR 0x0A] @ ''TZ='' @ [CHR 0x27] @ ''UTC'' @ [CHR 0x27] @
     [CHR 0x0A] @ ''SQL_DSN=local''\<close>

definition sample_host :: host where
  "sample_host = linux_host\<lparr>h_readFileSync := (\<lambda>p. sample_env)\<rparr>"


section \<open>The build script: running a command with a progress bar\<close>

text \<open>
  What the build script writes to its terminal. The texts of the messages are Chinese in
  the source; here each is an English gloss, and a message that interpolates a number
  has a constructor of its own. Lines that only decorate (rules, boxes, blank lines) are
  left out. A rendering of the progress bar is recorded by its percentage and its status
  text; the elapsed time and the padding of the text are not modelled.
\<close>

datatype level = Info | Success | Warn | Err | Title

datatype out_line =
    Log level string
  | Plain string
  | Bar int string
  | NewLine
  | Cleared
  | Preparing nat
  | Compiling nat nat string
  | CrossDone nat nat

text \<open>
  The class \<open>ProgressBar\<close>, lines 62 to 107. Progress values are JavaScript numbers; the
  model computes with exact rationals, so the rounding of \<open>0.1\<close> or \<open>0.3\<close> in binary
  floating point is not represented.
\<close>

record ProgressBar =
  pb_total :: rat
  pb_current :: rat
  pb_barLength :: nat
  pb_status :: string

definition new_ProgressBar :: "rat \<Rightarrow> string \<Rightarrow> ProgressBar" where
  "new_ProgressBar tot st =
     \<lparr>pb_total = tot, pb_current = 0, pb_barLength = 40, pb_status = st\<rparr>"

definition render :: "ProgressBar \<Rightarrow> out_line" where
  "render pb = Bar (min 100 (\<lfloor>pb_current pb / pb_total pb * 100\<rfloor>)) (pb_status pb)"

definition update :: "ProgressBar \<Rightarrow> rat \<Rightarrow> string \<Rightarrow> ProgressBar \<times> out_line list" where
  "update pb current st =
     (let pb1 = pb\<lparr>pb_current := current\<rparr>;
          pb2 = (if truthy st then pb1\<lparr>pb_status := st\<rparr> else pb1)
      in (pb2, [render pb2]))"

definition complete :: "ProgressBar \<Rightarrow> string \<Rightarrow> ProgressBar \<times> out_line list" where
  "complete pb msg =
     (let pb1 = pb\<lparr>pb_current := pb_total pb, pb_status := msg\<rparr>
      in (pb1, [render pb1, NewLine]))"

definition clear :: "ProgressBar \<Rightarrow> out_line list" where
  "clear pb = [Cleared]"

text \<open>
  A promise is pending until it is resolved or rejected, and settles once: a later call of
  \<open>resolve\<close> changes nothing. The child process speaks to the runner through events:
  chunks of its two output streams, the runner's own timer, and the \<open>close\<close> and \<open>error\<close>
  events.

  \<open>spawn\<close> itself either returns a child or throws. It throws for a command that is
  empty or holds a NUL character, which the library refuses before it starts anything,
  and it may throw for reasons of the outside (an invalid working directory or
  environment, a limit of the system); a command that the outside cannot start for other
  reasons is reported later, by the \<open>error\<close> event of the child. The runners call
  \<open>spawn\<close> inside the executor of their promise, with no \<open>try\<close> around it, so a throw
  of \<open>spawn\<close> rejects the promise.
\<close>

datatype promise = Pending | Resolved bool | Rejected


datatype child_event =
    Stdout string
  | Stderr string
  | Tick
  | Close "int option"
  | Error string

datatype spawned = SpawnThrows | Child "child_event list"

definition invalid_command :: "string \<Rightarrow> bool" where
  "invalid_command cmd = (cmd = [] \<or> CHR 0x00 \<in> set cmd)"

definition spawn :: "string \<Rightarrow> spawned \<Rightarrow> spawned" where
  \<comment> \<open>\<open>spawn(cmd, [], ...)\<close>, given what the outside does with a command the library accepts\<close>
  "spawn cmd answer = (if invalid_command cmd then SpawnThrows else answer)"

record runner =
  progress :: ProgressBar
  progressValue :: rat
  lastStatus :: string
  outputBuffer :: string
  interval :: bool
  screen :: "out_line list"
  promise :: promise

definition resolve :: "bool \<Rightarrow> runner \<Rightarrow> runner" where
  "resolve b r = (if promise r = Pending then r\<lparr>promise := Resolved b\<rparr> else r)"

definition show_progress :: "string \<Rightarrow> runner \<Rightarrow> runner" where
  \<comment> \<open>\<open>progress.update(progressValue, st)\<close>\<close>
  "show_progress st r =
     (let (pb, out) = update (progress r) (progressValue r) st
      in r\<lparr>progress := pb, screen := screen r @ out\<rparr>)"

definition new_runner :: runner where
  \<comment> \<open>the state after \<open>spawn\<close> and \<open>setInterval\<close>; the first label reads "preparing..."\<close>
  "new_runner =
     \<lparr>progress = new_ProgressBar 100 ''preparing...'', progressValue = 0, lastStatus = [],
      outputBuffer = [], interval = True, screen = [], promise = Pending\<rparr>"

fun match_after :: "string \<Rightarrow> (char \<Rightarrow> bool) \<Rightarrow> string \<Rightarrow> string option" where
  \<comment> \<open>the group of the leftmost match of a literal followed by one or more characters of a class\<close>
  "match_after lit cls [] = None"
| "match_after lit cls (c # cs) =
     (if startsWith (c # cs) lit \<and> takeWhile cls (drop (length lit) (c # cs)) \<noteq> []
      then Some (takeWhile cls (drop (length lit) (c # cs)))
      else match_after lit cls cs)"

definition classify :: "rat \<times> string \<Rightarrow> string \<Rightarrow> rat \<times> string" where
  \<comment> \<open>the body of the loop over lines, lines 199 to 219, on \<open>(progressValue, lastStatus)\<close>\<close>
  "classify ps line =
     (let (pv, ls) = ps
      in if includes_str line ''reify:'' then
           (min 95 (pv + 1/2),
            case match_after ''reify:'' (\<lambda>c. c \<noteq> CHR '':'') line of
              Some m \<Rightarrow> take 25 (trim m)
            | None \<Rightarrow> ls)
         else if includes_str line ''timing'' then (min 95 (pv + 3/10), ls)
         else if includes_str line ''added'' \<or> includes_str line ''packages'' then
           (98, ''install finished'')
         else if includes_str line ''idealTree'' \<or> includes_str line ''buildIdeal'' then
           (min 30 (pv + 2), ''resolving dependency tree...'')
         else if includes_str line ''diffTrees'' then
           (min 40 (pv + 1), ''computing differences...'')
         else if includes_str line ''fetch'' then
           (min 80 (pv + 1/5), ''downloading packages...'')
         else (pv, ls))"

definition parseOutput :: "string \<Rightarrow> runner \<Rightarrow> runner" where
  \<comment> \<open>lines 194 to 223\<close>
  "parseOutput text r =
     (let lines = filter truthy (split_on CHR 0x0A text);
          (pv, ls) = foldl classify (progressValue r, lastStatus r) lines
      in show_progress ls (r\<lparr>progressValue := pv, lastStatus := ls\<rparr>))"

fun npm_event :: "runner \<Rightarrow> child_event \<Rightarrow> runner" where
  "npm_event r (Stdout text) = parseOutput text r"
| "npm_event r (Stderr text) = parseOutput text r"
| "npm_event r Tick =
     (if interval r \<and> progressValue r < 95
      then (let r1 = r\<lparr>progressValue := progressValue r + 1/10\<rparr>
            in show_progress (if truthy (lastStatus r1) then lastStatus r1 else ''installing...'') r1)
      else r)"
| "npm_event r (Close code) =
     (let r1 = r\<lparr>interval := False\<rparr>
      in if code = Some 0
         then (let (pb, out) = complete (progress r1) ''installation complete''
               in resolve True (r1\<lparr>progress := pb, screen := screen r1 @ out\<rparr>))
         else resolve False
                (r1\<lparr>screen := screen r1 @ clear (progress r1) @ [Log Err ''installation failed'']\<rparr>))"
| "npm_event r (Error msg) =
     (let r1 = r\<lparr>interval := False\<rparr>
      in resolve False
           (r1\<lparr>screen := screen r1 @ clear (progress r1) @ [Log Err (''execution failed: '' @ msg)]\<rparr>))"

definition thrown_runner :: runner where
  \<comment> \<open>the executor threw at \<open>spawn\<close>: no progress bar, no timer, the promise rejected\<close>
  "thrown_runner = new_runner\<lparr>interval := False, promise := Rejected\<rparr>"

definition execWithProgress_run :: "string \<Rightarrow> spawned \<Rightarrow> runner" where
  \<comment> \<open>\<open>execWithProgress\<close>, lines 175 to 254: the call of \<open>spawn\<close>, then the events of
      the child\<close>
  "execWithProgress_run cmd answer =
     (case spawn cmd answer of
        SpawnThrows \<Rightarrow> thrown_runner
      | Child evs \<Rightarrow> foldl npm_event new_runner evs)"

definition parseGoOutput :: "string \<Rightarrow> runner \<Rightarrow> runner" where
  \<comment> \<open>\<open>parseOutput\<close> of \<open>execGoWithProgress\<close>, lines 277 to 293\<close>
  "parseGoOutput text r0 =
     (let r = r0\<lparr>outputBuffer := outputBuffer r0 @ text\<rparr>;
          r1 = (if includes_str text ''go: downloading'' then
                  r\<lparr>lastStatus :=
                       (case match_after ''go: downloading '' (\<lambda>c. \<not> is_ws c) text of
                          Some m \<Rightarrow>
                            (let seg = take 25 (pop (split_on CHR ''/'' m))
                             in if truthy seg then seg else ''downloading modules...'')
                        | None \<Rightarrow> lastStatus r),
                     progressValue := min 90 (progressValue r + 2)\<rparr>
                else if includes_str text ''go: finding'' then
                  r\<lparr>lastStatus := ''resolving modules...'',
                     progressValue := min 30 (progressValue r + 5)\<rparr>
                else r)
      in show_progress (if truthy (lastStatus r1) then lastStatus r1 else ''processing...'') r1)"

fun go_event :: "runner \<Rightarrow> child_event \<Rightarrow> runner" where
  "go_event r (Stdout text) = parseGoOutput text r"
| "go_event r (Stderr text) = parseGoOutput text r"
| "go_event r Tick =
     (if interval r \<and> progressValue r < 95
      then (let r1 = r\<lparr>progressValue := progressValue r + 1/5\<rparr>
            in show_progress (if truthy (lastStatus r1) then lastStatus r1 else ''compiling...'') r1)
      else r)"
| "go_event r (Close code) =
     (let r1 = r\<lparr>interval := False\<rparr>
      in if code = Some 0
         then (let (pb, out) = complete (progress r1) ''done''
               in resolve True (r1\<lparr>progress := pb, screen := screen r1 @ out\<rparr>))
         else resolve False
                (r1\<lparr>screen := screen r1 @ clear (progress r1) @
                      (if truthy (outputBuffer r1) then [Plain (outputBuffer r1)] else [])\<rparr>))"
| "go_event r (Error msg) =
     (let r1 = r\<lparr>interval := False\<rparr>
      in resolve False
           (r1\<lparr>screen := screen r1 @ clear (progress r1) @ [Log Err (''execution failed: '' @ msg)]\<rparr>))"

definition execGoWithProgress_run :: "string \<Rightarrow> spawned \<Rightarrow> runner" where
  \<comment> \<open>\<open>execGoWithProgress\<close>, lines 257 to 326: the call of \<open>spawn\<close>, then the events
      of the child\<close>
  "execGoWithProgress_run cmd answer =
     (case spawn cmd answer of
        SpawnThrows \<Rightarrow> thrown_runner
      | Child evs \<Rightarrow> foldl go_event new_runner evs)"

fun is_output :: "child_event \<Rightarrow> bool" where
  \<comment> \<open>an event that does not end the child: output or a tick of the timer\<close>
  "is_output (Close _) = False"
| "is_output (Error _) = False"
| "is_output _ = True"

definition outcome :: "child_event list \<Rightarrow> child_event option" where
  \<comment> \<open>how the child ended: its first \<open>close\<close> or \<open>error\<close> event, if there is one\<close>
  "outcome evs = (case dropWhile is_output evs of [] \<Rightarrow> None | e # _ \<Rightarrow> Some e)"

section \<open>The build script: the pipeline\<close>

text \<open>
  The pipeline talks to the outside through library calls: the file system, commands run
  to their end by \<open>execSync\<close>, and children started by \<open>spawn\<close>. The outside
  answers each call, and its answer may depend on the moment of the call, counted by a
  clock that every call advances, so that the file system and the commands may answer
  differently as the build proceeds. A call that the script guards with \<open>try\<close>
  may fail (\<^term>\<open>None\<close>) and the script goes on. A call that the script does not
  guard may throw as well: \<open>writeFileSync\<close>, \<open>mkdirSync\<close> (the outside says whether
  they complete) and \<open>spawn\<close>. Such a throw leaves the function that made the call, and
  every caller that awaits it, up to the \<open>catch\<close> at the end of the script.
\<close>

record outside =
  o_platform :: string
  o_arch :: string
  o_rootDir :: string
  o_join :: "string \<Rightarrow> string \<Rightarrow> string"
  o_env :: obj
  o_existsSync :: "nat \<Rightarrow> string \<Rightarrow> bool"
  o_readFileSync :: "nat \<Rightarrow> string \<Rightarrow> string option"
  o_writeFileSync :: "nat \<Rightarrow> string \<Rightarrow> bool"
  o_mkdirSync :: "nat \<Rightarrow> string \<Rightarrow> bool"
  o_execSync :: "nat \<Rightarrow> string \<Rightarrow> string option"
  o_spawn :: "nat \<Rightarrow> string \<Rightarrow> spawned"

datatype effect =
    Run string "string option" "obj option"
  | WriteFile string string
  | MkDir string

text \<open>
  How a call of an asynchronous function of the pipeline ends for its caller: it returns
  a value, or it throws (its promise is rejected), or it never settles, so that the
  caller waits for ever.
\<close>

datatype 'a result = Returns 'a | Throws | Hangs

text \<open>
  The state that the pipeline threads: the clock, the terminal, what was done to the
  outside, and a record of the calls of \<open>buildBackend\<close> with their arguments, kept only
  to state how often and in which order it is called.
\<close>

record world =
  clock :: nat
  console :: "out_line list"
  effects :: "effect list"
  invoked :: "(string \<times> string) list"

definition tick :: "world \<Rightarrow> world" where
  "tick w = w\<lparr>clock := Suc (clock w)\<rparr>"

definition say :: "out_line list \<Rightarrow> world \<Rightarrow> world" where
  "say ls w = w\<lparr>console := console w @ ls\<rparr>"

definition log :: "level \<Rightarrow> string \<Rightarrow> world \<Rightarrow> world" where
  "log lv msg w = say [Log lv msg] w"

definition act :: "effect \<Rightarrow> world \<Rightarrow> world" where
  "act e w = w\<lparr>effects := effects w @ [e]\<rparr>"

definition webDir :: "outside \<Rightarrow> string" where
  "webDir orc = o_join orc (o_rootDir orc) ''web''"

definition outputDir :: "outside \<Rightarrow> string" where
  "outputDir orc = o_join orc (o_rootDir orc) ''_build''"

definition versionFile :: "outside \<Rightarrow> string" where
  "versionFile orc = o_join orc (o_rootDir orc) ''VERSION''"

definition mirrors_npm :: string where
  "mirrors_npm = ''https://registry.npmmirror.com''"

definition mirrors_goproxy :: string where
  "mirrors_goproxy = ''https://goproxy.cn,https://goproxy.io,direct''"

definition mirrors_gosumdb :: string where
  "mirrors_gosumdb = ''sum.golang.google.cn''"

definition mirrors_nodeMirror :: string where
  "mirrors_nodeMirror = ''https://npmmirror.com/mirrors/node/''"

definition mirrors_electronMirror :: string where
  "mirrors_electronMirror = ''https://npmmirror.com/mirrors/electron/''"

definition existsSync :: "outside \<Rightarrow> string \<Rightarrow> world \<Rightarrow> bool \<times> world" where
  "existsSync orc p w = (o_existsSync orc (clock w) p, tick w)"

definition writeFileSync :: "outside \<Rightarrow> string \<Rightarrow> string \<Rightarrow> world \<Rightarrow> bool \<times> world" where
  \<comment> \<open>\<^term>\<open>True\<close> when the call completes, \<^term>\<open>False\<close> when it throws\<close>
  "writeFileSync orc p content w =
     (if o_writeFileSync orc (clock w) p then (True, act (WriteFile p content) (tick w))
      else (False, tick w))"

definition mkdirSync :: "outside \<Rightarrow> string \<Rightarrow> world \<Rightarrow> bool \<times> world" where
  \<comment> \<open>\<^term>\<open>True\<close> when the call completes, \<^term>\<open>False\<close> when it throws\<close>
  "mkdirSync orc p w =
     (if o_mkdirSync orc (clock w) p then (True, act (MkDir p) (tick w))
      else (False, tick w))"

definition checkCommand :: "outside \<Rightarrow> string \<Rightarrow> world \<Rightarrow> bool \<times> world" where
  \<comment> \<open>lines 110 to 117\<close>
  "checkCommand orc cmd w =
     (let c = (if o_platform orc = ''win32'' then ''where '' @ cmd else ''which '' @ cmd)
      in (o_execSync orc (clock w) c \<noteq> None, act (Run c None None) (tick w)))"

definition npmrcContent :: string where
  "npmrcContent =
     ''registry='' @ mirrors_npm @ [CHR 0x0A] @
     ''disturl='' @ mirrors_nodeMirror @ [CHR 0x0A] @
     ''sass_binary_site=https://npmmirror.com/mirrors/node-sass/'' @ [CHR 0x0A] @
     ''phantomjs_cdnurl=https://npmmirror.com/mirrors/phantomjs/'' @ [CHR 0x0A] @
     ''electron_mirror='' @ mirrors_electronMirror @ [CHR 0x0A] @
     ''chromedriver_cdnurl=https://npmmirror.com/mirrors/chromedriver/'' @ [CHR 0x0A] @
     ''operadriver_cdnurl=https://npmmirror.com/mirrors/operadriver/'' @ [CHR 0x0A] @
     ''selenium_cdnurl=https://npmmirror.com/mirrors/selenium/'' @ [CHR 0x0A] @
     ''node_inspector_cdnurl=https://npmmirror.com/mirrors/node-inspector/'' @ [CHR 0x0A] @
     ''fsevents_binary_host_mirror=https://npmmirror.com/mirrors/fsevents/'' @ [CHR 0x0A]"

definition setupNpmMirror :: "outside \<Rightarrow> world \<Rightarrow> bool \<times> world" where
  \<comment> \<open>lines 135 to 153; \<^term>\<open>False\<close> when \<open>writeFileSync\<close> throws\<close>
  "setupNpmMirror orc w =
     (let w1 = log Info ''configuring the npm mirror...'' w;
          npmrcPath = o_join orc (webDir orc) ''.npmrc'';
          (written, w2) = writeFileSync orc npmrcPath npmrcContent w1
      in if written then (True, log Success ''created web/.npmrc'' w2) else (False, w2))"

definition getVersion :: "outside \<Rightarrow> world \<Rightarrow> string \<times> world" where
  \<comment> \<open>lines 156 to 172: only a failing read reaches the \<open>catch\<close> and asks git\<close>
  "getVersion orc w =
     (let (ex, w1) = existsSync orc (versionFile orc) w
      in if ex then
           (case o_readFileSync orc (clock w1) (versionFile orc) of
              Some content \<Rightarrow>
                (let version = trim content
                 in (if truthy version then version else ''v0.0.0'', tick w1))
            | None \<Rightarrow>
                (let w2 = tick w1;
                     w3 = act (Run ''git describe --tags'' None None) (tick w2)
                 in case o_execSync orc (clock w2) ''git describe --tags'' of
                      Some gitVersion \<Rightarrow> (trim gitVersion, w3)
                    | None \<Rightarrow> (''v0.0.0'', w3)))
         else (''v0.0.0'', w1))"

text \<open>
  \<open>await\<close> of the runner's promise: the caller goes on with the value once the promise is
  resolved, never goes on while it stays pending, and throws when the promise is
  rejected. The terminal shows what the runner wrote for all events of the child before
  what the caller writes next.
\<close>

fun await :: "promise \<Rightarrow> bool result" where
  "await (Resolved b) = Returns b"
| "await Pending = Hangs"
| "await Rejected = Throws"

definition ran :: "string \<Rightarrow> string \<Rightarrow> obj \<Rightarrow> runner \<Rightarrow> world \<Rightarrow> world" where
  \<comment> \<open>what a runner leaves: the command it started, unless \<open>spawn\<close> threw, and its output\<close>
  "ran cmd cwd env r w =
     say (screen r)
       (if promise r = Rejected then tick w else act (Run cmd (Some cwd) (Some env)) (tick w))"

definition execWithProgress ::
  "outside \<Rightarrow> string \<Rightarrow> string \<Rightarrow> obj \<Rightarrow> world \<Rightarrow> bool result \<times> world" where
  "execWithProgress orc cmd cwd env w =
     (let r = execWithProgress_run cmd (o_spawn orc (clock w) cmd)
      in (await (promise r), ran cmd cwd env r w))"

definition execGoWithProgress ::
  "outside \<Rightarrow> string \<Rightarrow> string \<Rightarrow> obj \<Rightarrow> world \<Rightarrow> bool result \<times> world" where
  "execGoWithProgress orc cmd cwd env w =
     (let r = execGoWithProgress_run cmd (o_spawn orc (clock w) cmd)
      in (await (promise r), ran cmd cwd env r w))"

definition exec :: "outside \<Rightarrow> string \<Rightarrow> string \<Rightarrow> obj \<Rightarrow> world \<Rightarrow> bool \<times> world" where
  \<comment> \<open>lines 329 to 343\<close>
  "exec orc cmd cwd env w =
     (let w1 = act (Run cmd (Some cwd) (Some env)) (tick w)
      in case o_execSync orc (clock w) cmd of
           Some _ \<Rightarrow> (True, w1)
         | None \<Rightarrow> (False, log Err (''command failed: '' @ cmd) w1))"

definition buildWeb_assets :: "outside \<Rightarrow> string \<Rightarrow> world \<Rightarrow> bool result \<times> world" where
  \<comment> \<open>the end of \<open>buildWeb\<close>, lines 382 to 401\<close>
  "buildWeb_assets orc version w =
     (let w1 = log Info ''building front-end assets...'' w;
          buildEnv = (o_env orc)(''DISABLE_ESLINT_PLUGIN'' \<mapsto> ''true'',
                                 ''VITE_REACT_APP_VERSION'' \<mapsto> version,
                                 ''NODE_OPTIONS'' \<mapsto> ''--max-old-space-size=1536'');
          (buildResult, w2) = exec orc ''npm run build'' (webDir orc) buildEnv w1
      in if buildResult
         then (Returns True,
               say [Log Success ''front end built'',
                    Plain (''build output: '' @ o_join orc (webDir orc) ''dist''),
                    Plain (''version: '' @ version)] w2)
         else (Returns False, w2))"

definition buildWeb :: "outside \<Rightarrow> world \<Rightarrow> bool result \<times> world" where
  \<comment> \<open>lines 346 to 402\<close>
  "buildWeb orc w =
     (let w1 = log Title ''build front end'' w;
          (webExists, w2) = existsSync orc (webDir orc) w1
      in if \<not> webExists then (Returns False, log Err ''web directory does not exist'' w2)
         else
           let (version, w3) = getVersion orc w2;
               (configured, w4) = setupNpmMirror orc w3
           in if \<not> configured then (Throws, w4)
              else
                let nodeModulesPath = o_join orc (webDir orc) ''node_modules'';
                    (modulesExist, w5) = existsSync orc nodeModulesPath w4
                in if \<not> modulesExist then
                     (let w6 = log Info ''installing front-end dependencies (domestic mirror)...'' w5;
                          installCmd = ''npm install --legacy-peer-deps --registry='' @
                                       mirrors_npm @ '' --timing'';
                          (success, w7) =
                             execWithProgress orc installCmd (webDir orc) (o_env orc) w6
                      in case success of
                           Hangs \<Rightarrow> (Hangs, w7)
                         | Throws \<Rightarrow> (Throws, w7)
                         | Returns True \<Rightarrow> buildWeb_assets orc version w7
                         | Returns False \<Rightarrow>
                             (let w8 = log Warn ''retrying the installation with --force...'' w7;
                                  (forceSuccess, w9) =
                                     execWithProgress orc
                                       (''npm install --force --registry='' @ mirrors_npm @
                                        '' --timing'')
                                       (webDir orc) (o_env orc) w8
                              in case forceSuccess of
                                   Hangs \<Rightarrow> (Hangs, w9)
                                 | Throws \<Rightarrow> (Throws, w9)
                                 | Returns False \<Rightarrow> (Returns False, w9)
                                 | Returns True \<Rightarrow> buildWeb_assets orc version w9))
                   else buildWeb_assets orc version
                          (log Info ''node_modules exists, installation skipped'' w5))"

definition osMap :: obj where
  "osMap = [''win32'' \<mapsto> ''windows'', ''darwin'' \<mapsto> ''darwin'', ''linux'' \<mapsto> ''linux'']"

definition build_archMap :: obj where
  \<comment> \<open>\<open>archMap\<close> of \<open>buildBackend\<close>, line 444\<close>
  "build_archMap = [''x64'' \<mapsto> ''amd64'', ''arm64'' \<mapsto> ''arm64'', ''ia32'' \<mapsto> ''386'']"

definition binaryName :: "string \<Rightarrow> string \<Rightarrow> string" where
  \<comment> \<open>lines 455 to 458, from \<open>goos\<close> and \<open>goarch\<close>\<close>
  "binaryName goos goarch =
     (let name = ''new-api-'' @ goos @ ''-'' @ goarch
      in if goos = ''windows'' then name @ ''.exe'' else name)"

definition recommend_go :: "outside \<Rightarrow> out_line list" where
  \<comment> \<open>lines 415 to 430: the installer to download, by the platform of the host\<close>
  "recommend_go orc =
     (let platform = o_platform orc; arch = o_arch orc
      in if platform = ''win32'' then
           [Log Info (''recommended download: '' @
              (if arch = ''x64'' then ''go1.25.4.windows-amd64.msi'' else ''go1.25.4.windows-arm64.msi'')),
            Log Info ''restart the terminal after installing'']
         else if platform = ''darwin'' then
           [Log Info (''recommended download: '' @
              (if arch = ''arm64'' then ''go1.25.4.darwin-arm64.pkg'' else ''go1.25.4.darwin-amd64.pkg''))]
         else if platform = ''linux'' then
           [Log Info (''recommended download: '' @
              (if arch = ''arm64'' then ''go1.25.4.linux-arm64.tar.gz'' else ''go1.25.4.linux-amd64.tar.gz'')),
            Log Info ''after unpacking set: export PATH=$PATH:/usr/local/go/bin'']
         else [])"

definition buildBackend ::
  "outside \<Rightarrow> string \<Rightarrow> string \<Rightarrow> world \<Rightarrow> bool result \<times> world" where
  \<comment> \<open>lines 405 to 511\<close>
  "buildBackend orc targetOS targetArch w =
     (let w0 = w\<lparr>invoked := invoked w @ [(targetOS, targetArch)]\<rparr>;
          w1 = log Title ''build back end'' w0;
          (hasGo, w2) = checkCommand orc ''go'' w1
      in if \<not> hasGo then
           (Returns False,
            say ([Log Err ''no Go environment found'',
                  Log Info ''recommended version: Go 1.21 or later''] @
                 recommend_go orc @
                 [Log Info ''official site: https://golang.google.cn/dl/'',
                  Log Info ''mirror: https://mirrors.nju.edu.cn/golang/'']) w2)
         else
           let (version, w3) = getVersion orc w2;
               goos = or_else (osMap targetOS) targetOS;
               goarch = or_else (build_archMap targetArch) targetArch;
               (outExists, w4) = existsSync orc (outputDir orc) w3;
               (made, w5) = (if \<not> outExists then mkdirSync orc (outputDir orc) w4
                             else (True, w4))
           in if \<not> made then (Throws, w5)
              else
                let binaryPath = o_join orc (outputDir orc) (binaryName goos goarch);
                    w6 = say [Log Info (''target platform: '' @ goos @ ''/'' @ goarch),
                              Log Info (''version: '' @ version),
                              Log Info (''Go proxy: '' @ mirrors_goproxy)] w5;
                    distDir = o_join orc (webDir orc) ''dist'';
                    (distExists, w7) = existsSync orc distDir w6
                in if \<not> distExists then
                     (Returns False,
                      log Warn ''front-end assets missing, build the front end first'' w7)
                   else
                     let w8 = log Info ''updating Go dependencies (domestic mirror)...'' w7;
                         goEnv = (o_env orc)(''GOPROXY'' \<mapsto> mirrors_goproxy,
                                             ''GOSUMDB'' \<mapsto> mirrors_gosumdb);
                         (tidy, w9) =
                            execGoWithProgress orc ''go mod tidy'' (o_rootDir orc) goEnv w8
                     in case tidy of
                          Hangs \<Rightarrow> (Hangs, w9)
                        | Throws \<Rightarrow> (Throws, w9)
                        | Returns False \<Rightarrow>
                            (Returns False, log Err ''updating Go dependencies failed'' w9)
                        | Returns True \<Rightarrow>
                            (let ldflags = ''-w -s -X 'one-api/common.Version='' @ version @
                                           [CHR 0x27];
                                 buildEnv = goEnv(''GOOS'' \<mapsto> goos, ''GOARCH'' \<mapsto> goarch,
                                                  ''CGO_ENABLED'' \<mapsto> ''0'');
                                 buildCmd = ''go build -o '' @ [CHR 0x22] @ binaryPath @
                                            [CHR 0x22] @ '' -ldflags '' @ [CHR 0x22] @
                                            ldflags @ [CHR 0x22];
                                 w10 = log Info ''compiling the back end...'' w9;
                                 (built, w11) =
                                    execGoWithProgress orc buildCmd (o_rootDir orc) buildEnv w10
                             in case built of
                                  Hangs \<Rightarrow> (Hangs, w11)
                                | Throws \<Rightarrow> (Throws, w11)
                                | Returns False \<Rightarrow>
                                    (Returns False, log Err ''Go compilation failed'' w11)
                                | Returns True \<Rightarrow>
                                    (Returns True,
                                     say [Log Success ''back end built'',
                                          Plain (''build output: '' @ binaryPath),
                                          Plain (''platform: '' @ goos @ ''/'' @ goarch),
                                          Plain (''version: '' @ version)] w11)))"

definition quick_start :: "outside \<Rightarrow> out_line list" where
  \<comment> \<open>lines 535 to 561 of \<open>buildAll\<close>; the table of architectures there has no \<open>ia32\<close>\<close>
  "quick_start orc =
     (let goos = or_else (osMap (o_platform orc)) (o_platform orc);
          goarch = or_else (archMap (o_arch orc)) (o_arch orc);
          binaryPath = o_join orc (outputDir orc) (binaryName goos goarch)
      in [Plain (''front end: '' @ o_join orc (webDir orc) ''dist''),
          Plain (''back end: '' @ outputDir orc),
          Plain binaryPath,
          Plain ''default port: 3000'',
          Plain ''address: http://localhost:3000''])"

definition buildAll :: "outside \<Rightarrow> world \<Rightarrow> bool result \<times> world" where
  \<comment> \<open>lines 514 to 565; \<open>buildBackend()\<close> takes the platform and architecture of the host\<close>
  "buildAll orc w =
     (let w1 = log Title ''full build'' w;
          (webResult, w2) = buildWeb orc w1
      in case webResult of
           Hangs \<Rightarrow> (Hangs, w2)
         | Throws \<Rightarrow> (Throws, w2)
         | Returns False \<Rightarrow> (Returns False, log Err ''front-end build failed'' w2)
         | Returns True \<Rightarrow>
             (let (backendResult, w3) = buildBackend orc (o_platform orc) (o_arch orc) w2
              in case backendResult of
                   Hangs \<Rightarrow> (Hangs, w3)
                 | Throws \<Rightarrow> (Throws, w3)
                 | Returns False \<Rightarrow> (Returns False, log Err ''back-end build failed'' w3)
                 | Returns True \<Rightarrow>
                     (Returns True,
                      say (Log Success ''full build complete: front end and back end built'' #
                           quick_start orc) w3)))"

record target =
  t_os :: string
  t_arch :: string
  t_desc :: string






text \<open>
  Every call of \<open>buildBackend\<close> begins by asking whether Go is installed, with the command
  \<open>which go\<close> (on Windows \<open>where go\<close>), and nothing else in the pipeline runs that
  command: the number of times it was run counts the calls in what was done to the
  outside.
\<close>

fun is_go_check :: "effect \<Rightarrow> bool" where
  "is_go_check (Run c None None) = (c = ''which go'' \<or> c = ''where go'')"
| "is_go_check _ = False"

definition go_checks :: "world \<Rightarrow> nat" where
  "go_checks w = length (filter is_go_check (effects w))"

definition terminating :: "outside \<Rightarrow> bool" where
  \<comment> \<open>every child that is spawned ends: it closes or fails to start\<close>
  "terminating orc =
     (\<forall>t cmd. case o_spawn orc t cmd of
                SpawnThrows \<Rightarrow> True
              | Child evs \<Rightarrow> outcome evs \<noteq> None)"

fun verdict :: "child_event option \<Rightarrow> promise" where
  \<comment> \<open>the state of a promise that is settled by the way the child ended, and by nothing else\<close>
  "verdict (Some (Close code)) = Resolved (code = Some 0)"
| "verdict (Some (Error msg)) = Resolved False"
| "verdict _ = Pending"





text \<open>
  For the examples: a machine on which everything is installed and every command
  succeeds, except the compilation for Windows on ARM64; the same machine without the
  project's files; the same machine where the output directory is missing and cannot be
  created; the same machine with a NUL character in the file \<open>VERSION\<close>; and the state in
  which a run starts.
\<close>

definition build_host :: outside where
  "build_host =
     \<lparr>o_platform = ''linux'', o_arch = ''x64'', o_rootDir = ''/src'',
      o_join = (\<lambda>d f. d @ ''/'' @ f), o_env = Map.empty,
      o_existsSync = (\<lambda>t p. True),
      o_readFileSync = (\<lambda>t p. Some ''v1.2.3''),
      o_writeFileSync = (\<lambda>t p. True),
      o_mkdirSync = (\<lambda>t p. True),
      o_execSync = (\<lambda>t c. Some []),
      o_spawn = (\<lambda>t cmd. if includes_str cmd ''windows-arm64''
                          then Child [Stderr ''build failed'', Close (Some 1)]
                          else Child [Tick, Close (Some 0)])\<rparr>"

definition empty_host :: outside where
  "empty_host = build_host\<lparr>o_existsSync := (\<lambda>t p. False)\<rparr>"


definition nul_host :: outside where
  "nul_host = build_host\<lparr>o_readFileSync := (\<lambda>t p. Some (''v1.2.3'' @ [CHR 0x00]))\<rparr>"

definition fresh :: world where
  "fresh = \<lparr>clock = 0, console = [], effects = [], invoked = []\<rparr>"


section \<open>Properties of the launcher\<close>

subsection \<open>The configuration file\<close>

lemma hash_not_ws: "\<not> is_ws CHR ''#''"
  by (simp add: is_ws_def)

lemma dropWhile_snoc_keeps: "\<not> P c \<Longrightarrow> \<exists>ys. dropWhile P (xs @ [c]) = ys @ [c]"
  by (induction xs) auto

lemma trim_hash: "startsWith line ''#'' \<Longrightarrow> startsWith (trim line) ''#''"
proof -
  assume "startsWith line ''#''"
  then obtain rest where l: "line = CHR ''#'' # rest"
    by (cases line) auto
  obtain ys where "dropWhile is_ws (rev rest @ [CHR ''#'']) = ys @ [CHR ''#'']"
    using dropWhile_snoc_keeps [of is_ws "CHR ''#''" "rev rest"] hash_not_ws by blast
  then show ?thesis by (simp add: trim_def l hash_not_ws)
qed

lemma trim_blank: "list_all is_ws line \<Longrightarrow> trim line = []"
proof -
  assume "list_all is_ws line"
  then have d: "dropWhile is_ws line = []"
    unfolding dropWhile_eq_Nil_conv list_all_iff .
  show ?thesis unfolding trim_def d by simp
qed

lemma set_trim: "set (trim line) \<subseteq> set line"
proof -
  have "set (trim line) \<subseteq> set (dropWhile is_ws line)"
    unfolding trim_def using set_dropWhileD [of _ is_ws "rev (dropWhile is_ws line)"] by auto
  also have "\<dots> \<subseteq> set line"
    using set_dropWhileD [of _ is_ws line] by auto
  finally show ?thesis .
qed

lemma match_kv_no_eq: "CHR ''='' \<notin> set line \<Longrightarrow> match_kv line = None"
proof -
  assume "CHR ''='' \<notin> set line"
  then have "\<forall>c \<in> set line. c \<noteq> CHR ''=''" by blast
  then have d: "dropWhile (\<lambda>c. c \<noteq> CHR ''='') line = []"
    unfolding dropWhile_eq_Nil_conv .
  show ?thesis unfolding match_kv_def d by simp
qed

lemma env_line_skips:
  assumes "startsWith line ''#'' \<or> list_all is_ws line \<or> CHR ''='' \<notin> set line"
  shows "env_line config line = config"
proof -
  consider "startsWith line ''#''" | "list_all is_ws line" | "CHR ''='' \<notin> set line"
    using assms by blast
  then show ?thesis
  proof cases
    case 1
    then show ?thesis by (simp add: env_line_def trim_hash)
  next
    case 2
    then show ?thesis by (simp add: env_line_def trim_blank truthy_def)
  next
    case 3
    then have "CHR ''='' \<notin> set (trim line)" using set_trim [of line] by auto
    then show ?thesis by (simp add: env_line_def Let_def match_kv_no_eq)
  qed
qed

lemmas env_line_defs = env_line_def trim_def is_ws_def truthy_def match_kv_def
  is_line_terminator_def strip_quotes_def endsWith_def slice_1_m1_def obj_set_def

lemma env_line_port:
  \<open>env_line config ''PORT="8080"'' = config(''PORT'' \<mapsto> ''8080'')\<close>
  by (simp add: env_line_defs)

text \<open>
  What a well-formed line contributes: a line \<open>key=value\<close> with a plain key and a plain
  value sets the key to the value, with a pair of equal quotes around it removed.
\<close>

lemma trim_id: "xs \<noteq> [] \<Longrightarrow> \<not> is_ws (hd xs) \<Longrightarrow> \<not> is_ws (last xs) \<Longrightarrow> trim xs = xs"
proof -
  assume ne: "xs \<noteq> []" and h: "\<not> is_ws (hd xs)" and l: "\<not> is_ws (last xs)"
  from ne h have d: "dropWhile is_ws xs = xs" by (cases xs) simp_all
  from ne obtain ys y where xs: "xs = ys @ [y]"
    by (cases xs rule: rev_cases) auto
  with l have "\<not> is_ws y" by simp
  then have "dropWhile is_ws (rev xs) = rev xs" by (simp add: xs)
  then show ?thesis unfolding trim_def d by simp
qed

lemma trim_plain_value: "plain_value v \<Longrightarrow> trim v = v"
proof (cases "v = []")
  case True
  then show ?thesis by (simp add: trim_def)
next
  case False
  assume "plain_value v"
  with False have "\<not> is_ws (hd v)" and "\<not> is_ws (last v)"
    by (simp_all add: plain_value_def)
  with False show ?thesis by (rule trim_id)
qed

lemma eq_not_ws: "\<not> is_ws CHR ''=''"
  by (simp add: is_ws_def)

lemma match_kv_line:
  assumes "k \<noteq> []" and "CHR ''='' \<notin> set k" and "\<not> list_ex is_line_terminator v"
  shows "match_kv (k @ ''='' @ v) = Some (k, v)"
proof -
  from assms(2) have a: "\<And>c. c \<in> set k \<Longrightarrow> c \<noteq> CHR ''=''" by blast
  have t: "takeWhile (\<lambda>c. c \<noteq> CHR ''='') (k @ ''='' @ v) = k"
    using a by (simp add: takeWhile_append2)
  have d: "dropWhile (\<lambda>c. c \<noteq> CHR ''='') (k @ ''='' @ v) = ''='' @ v"
    using a by (simp add: dropWhile_append2)
  show ?thesis
    unfolding match_kv_def t d using assms(1,3) by simp
qed

lemma env_line_plain:
  assumes k: "plain_key k" and v: "plain_value v"
  shows "env_line config (k @ ''='' @ v) = config(k \<mapsto> strip_quotes v)"
proof -
  define line where "line = k @ ''='' @ v"
  from k have ne: "k \<noteq> []" and noeq: "CHR ''='' \<notin> set k" and hk: "\<not> is_ws (hd k)"
    and lk: "\<not> is_ws (last k)" and nh: "hd k \<noteq> CHR ''#''" and np: "k \<noteq> ''__proto__''"
    by (simp_all add: plain_key_def)
  from v have nl: "\<not> list_ex is_line_terminator v" by (simp add: plain_value_def)
  have lne: "line \<noteq> []" using ne by (simp add: line_def)
  have lastl: "\<not> is_ws (last line)"
    using v eq_not_ws by (cases "v = []") (simp_all add: plain_value_def line_def)
  have hdl: "\<not> is_ws (hd line)" using ne hk by (simp add: line_def)
  have tl: "trim line = line"
    using lne hdl lastl by (rule trim_id)
  have ns: "\<not> startsWith line ''#''"
    using ne nh by (cases k) (simp_all add: line_def)
  have m: "match_kv line = Some (k, v)"
    unfolding line_def using ne noeq nl by (rule match_kv_line)
  have tk: "trim k = k" using ne hk lk by (rule trim_id)
  have tv: "trim v = v" using v by (rule trim_plain_value)
  have "env_line config line = config(k \<mapsto> strip_quotes v)"
    using lne ns np by (simp add: env_line_def tl m tk tv truthy_def obj_set_def)
  then show ?thesis by (simp only: line_def)
qed

lemma quote_not_ws: "q = CHR 0x22 \<or> q = CHR 0x27 \<Longrightarrow> \<not> is_ws q \<and> \<not> is_line_terminator q"
  by (auto simp: is_ws_def is_line_terminator_def)

lemma strip_quotes_quoted:
  "q = CHR 0x22 \<or> q = CHR 0x27 \<Longrightarrow> strip_quotes ([q] @ u @ [q]) = u"
  by (auto simp: strip_quotes_def endsWith_def slice_1_m1_def)

lemma strip_quotes_unquoted: "unquoted v \<Longrightarrow> strip_quotes v = v"
  by (auto simp: strip_quotes_def unquoted_def)

lemma env_line_quoted:
  assumes "plain_key k" and "q = CHR 0x22 \<or> q = CHR 0x27"
    and "\<not> list_ex is_line_terminator u"
  shows "env_line config (k @ ''='' @ [q] @ u @ [q]) = config(k \<mapsto> u)"
proof -
  have "plain_value ([q] @ u @ [q])"
    using assms(3) quote_not_ws [OF assms(2)] by (simp add: plain_value_def)
  from env_line_plain [OF assms(1) this]
  have "env_line config (k @ ''='' @ [q] @ u @ [q]) =
          config(k \<mapsto> strip_quotes ([q] @ u @ [q]))" .
  then show ?thesis by (simp only: strip_quotes_quoted [OF assms(2)])
qed

lemma env_line_unquoted:
  assumes "plain_key k" and "plain_value v" and "unquoted v"
  shows "env_line config (k @ ''='' @ v) = config(k \<mapsto> v)"
  using env_line_plain [OF assms(1,2)] by (simp only: strip_quotes_unquoted [OF assms(3)])

text \<open>
  Claim C7. When the configuration file exists, \<open>loadEnv\<close> returns the mapping built
  line by line. The line \<open>PORT="8080"\<close> sets the key \<open>PORT\<close> to \<open>8080\<close>, the quotes
  removed, in the mapping that the lines before it built, and the lines after it are
  read from there. So does every line \<open>key=value\<close> for its key: a value enclosed in a
  pair of double quotes or in a pair of single quotes is stored without the pair, and a
  value that is not enclosed in a pair of equal quotes is stored as it is. A line that
  begins with \<open>#\<close>, a blank line and a line without \<open>=\<close> add nothing: the result is the
  one of the file without that line, so the lines after it are still read.
\<close>

theorem loadEnv_reads_lines:
  assumes "h_existsSync h p"
    and "split_on CHR 0x0A (h_readFileSync h p) = before @ line # after"
  shows \<open>(line = ''PORT="8080"'' \<longrightarrow>
            loadEnv h p =
              ([], Return (foldl env_line
                             ((foldl env_line Map.empty before)(''PORT'' \<mapsto> ''8080''))
                             after))) \<and>
         (plain_key k \<and> (q = CHR 0x22 \<or> q = CHR 0x27) \<and> \<not> list_ex is_line_terminator u \<and>
          line = k @ ''='' @ [q] @ u @ [q] \<longrightarrow>
            loadEnv h p =
              ([], Return (foldl env_line ((foldl env_line Map.empty before)(k \<mapsto> u)) after))) \<and>
         (plain_key k' \<and> plain_value v \<and> unquoted v \<and> line = k' @ ''='' @ v \<longrightarrow>
            loadEnv h p =
              ([], Return (foldl env_line ((foldl env_line Map.empty before)(k' \<mapsto> v)) after))) \<and>
         (startsWith line ''#'' \<or> list_all is_ws line \<or> CHR ''='' \<notin> set line \<longrightarrow>
            loadEnv h p = ([], Return (foldl env_line Map.empty (before @ after))))\<close>
proof (intro conjI impI)
  assume \<open>line = ''PORT="8080"''\<close>
  then show \<open>loadEnv h p =
              ([], Return (foldl env_line
                             ((foldl env_line Map.empty before)(''PORT'' \<mapsto> ''8080''))
                             after))\<close>
    using assms by (simp add: loadEnv_def parse_env_def env_line_port)
next
  assume a: "plain_key k \<and> (q = CHR 0x22 \<or> q = CHR 0x27) \<and>
             \<not> list_ex is_line_terminator u \<and> line = k @ ''='' @ [q] @ u @ [q]"
  then have "env_line (foldl env_line Map.empty before) line =
               (foldl env_line Map.empty before)(k \<mapsto> u)"
    using env_line_quoted [of k q u] by blast
  then show "loadEnv h p =
      ([], Return (foldl env_line ((foldl env_line Map.empty before)(k \<mapsto> u)) after))"
    using assms by (simp add: loadEnv_def parse_env_def)
next
  assume a: "plain_key k' \<and> plain_value v \<and> unquoted v \<and> line = k' @ ''='' @ v"
  then have "env_line (foldl env_line Map.empty before) line =
               (foldl env_line Map.empty before)(k' \<mapsto> v)"
    using env_line_unquoted [of k' v] by blast
  then show "loadEnv h p =
      ([], Return (foldl env_line ((foldl env_line Map.empty before)(k' \<mapsto> v)) after))"
    using assms by (simp add: loadEnv_def parse_env_def)
next
  assume "startsWith line ''#'' \<or> list_all is_ws line \<or> CHR ''='' \<notin> set line"
  then have "env_line (foldl env_line Map.empty before) line = foldl env_line Map.empty before"
    by (rule env_line_skips)
  then show "loadEnv h p = ([], Return (foldl env_line Map.empty (before @ after)))"
    using assms by (simp add: loadEnv_def parse_env_def)
qed

theorem loadEnv_reads_lines_witness:
  \<open>loadEnv sample_host ''/opt/new-api/.env'' =
     ([], Return [''PORT'' \<mapsto> ''8080'', ''TZ'' \<mapsto> ''UTC'', ''SQL_DSN'' \<mapsto> ''local''])\<close>
proof -
  define tz where "tz = ''TZ'' @ ''='' @ [CHR 0x27] @ ''UTC'' @ [CHR 0x27]"
  have e: "h_existsSync sample_host ''/opt/new-api/.env''"
    by (simp add: sample_host_def linux_host_def)
  have s1: \<open>split_on CHR 0x0A (h_readFileSync sample_host ''/opt/new-api/.env'') =
             [''# settings''] @ ''PORT="8080"'' # [ [], ''malformed line'', tz, ''SQL_DSN=local'']\<close>
    by (simp add: sample_host_def sample_env_def split_on_def tz_def)
  have s2: \<open>split_on CHR 0x0A (h_readFileSync sample_host ''/opt/new-api/.env'') =
             [''# settings'', ''PORT="8080"'', []] @ ''malformed line'' # [tz, ''SQL_DSN=local'']\<close>
    by (simp add: sample_host_def sample_env_def split_on_def tz_def)
  have s3: \<open>split_on CHR 0x0A (h_readFileSync sample_host ''/opt/new-api/.env'') =
             [''# settings'', ''PORT="8080"'', [], ''malformed line''] @
             (''TZ'' @ ''='' @ [CHR 0x27] @ ''UTC'' @ [CHR 0x27]) # [''SQL_DSN=local'']\<close>
    by (simp add: sample_host_def sample_env_def split_on_def)
  have s4: \<open>split_on CHR 0x0A (h_readFileSync sample_host ''/opt/new-api/.env'') =
             [''# settings'', ''PORT="8080"'', [], ''malformed line'', tz] @
             (''SQL_DSN'' @ ''='' @ ''local'') # []\<close>
    by (simp add: sample_host_def sample_env_def split_on_def tz_def)
  have k3: "plain_key ''TZ''" and k4: "plain_key ''SQL_DSN''"
    by (simp_all add: plain_key_def is_ws_def)
  have v4: "plain_value ''local''" "unquoted ''local''"
    by (simp_all add: plain_value_def unquoted_def is_ws_def is_line_terminator_def)
  have u3: "\<not> list_ex is_line_terminator ''UTC''"
    by (simp add: is_line_terminator_def)
  have r1: \<open>loadEnv sample_host ''/opt/new-api/.env'' =
     ([], Return (foldl env_line
                    ((foldl env_line Map.empty [''# settings''])(''PORT'' \<mapsto> ''8080''))
                    [ [], ''malformed line'', tz, ''SQL_DSN=local'']))\<close>
    using loadEnv_reads_lines [OF e s1] by simp
  have r2: \<open>loadEnv sample_host ''/opt/new-api/.env'' =
     ([], Return (foldl env_line Map.empty
                    ([''# settings'', ''PORT="8080"'', []] @ [tz, ''SQL_DSN=local''])))\<close>
    using loadEnv_reads_lines [OF e s2] by simp
  have r3: \<open>loadEnv sample_host ''/opt/new-api/.env'' =
     ([], Return (foldl env_line
        ((foldl env_line Map.empty [''# settings'', ''PORT="8080"'', [], ''malformed line''])
           (''TZ'' \<mapsto> ''UTC''))
        [''SQL_DSN=local'']))\<close>
    using loadEnv_reads_lines [OF e s3, of "''TZ''" "CHR 0x27" "''UTC''"] k3 u3 by simp
  have r4: \<open>loadEnv sample_host ''/opt/new-api/.env'' =
     ([], Return ((foldl env_line Map.empty
         [''# settings'', ''PORT="8080"'', [], ''malformed line'', tz])
           (''SQL_DSN'' \<mapsto> ''local'')))\<close>
    using loadEnv_reads_lines [OF e s4, of _ _ _ "''SQL_DSN''" "''local''"] k4 v4 by simp
  have \<open>foldl env_line Map.empty
         [''# settings'', ''PORT="8080"'', [], ''malformed line'', tz] =
        [''PORT'' \<mapsto> ''8080'', ''TZ'' \<mapsto> ''UTC'']\<close>
    by (simp add: env_line_defs tz_def)
  with r4 r1 r2 r3 show ?thesis by simp
qed

subsection \<open>Ending before the child is started\<close>

lemma handle_ended: "status l = Some n \<Longrightarrow> foldl handle l evs = l"
  by (induction evs) (simp_all add: handle_def)

lemma handle_signal: "is_signal e \<Longrightarrow> status (handle l e) = status l"
  by (auto simp: handle_def is_signal_def do_actions_def)

lemma handle_signals:
  "\<forall>e \<in> set pre. is_signal e \<Longrightarrow> status (foldl handle l pre) = status l"
  by (induction pre arbitrary: l) (simp_all add: handle_signal)

lemma status_on_exit:
  "status l = None \<Longrightarrow> status (handle l (ChildExit code sg)) = Some (code_or_0 code)"
  by (simp add: handle_def process_exit_def)

lemma spawned_do_actions: "spawned (do_actions as l) = (spawned l \<or> list_ex is_spawn as)"
  by (auto simp: spawned_def do_actions_def)

lemma spawned_process_exit: "spawned (process_exit n l) = spawned l"
  by (simp add: spawned_def process_exit_def)

lemma status_do_actions: "status (do_actions as l) = status l"
  by (simp add: do_actions_def)

lemma status_process_exit: "status (process_exit n l) = Some n"
  by (simp add: process_exit_def)

lemma loadEnv_cases:
  "loadEnv h p = ([Print (ConfigNotFound p)], Exit 1) \<and> \<not> h_existsSync h p \<or>
   loadEnv h p = ([], Return (parse_env (h_readFileSync h p))) \<and> h_existsSync h p"
  by (simp add: loadEnv_def)

lemma getExecutablePath_cases:
  "(\<exists>m. getExecutablePath h = ([Print m], Exit 1)) \<or>
   (\<exists>p. getExecutablePath h = ([], Return p))"
  by (simp add: getExecutablePath_def Let_def split: option.split)

lemma start_spawned_iff: "spawned (start h) = (status (start h) = None)"
  using loadEnv_cases [of h "h_join h (h_dirname h) ''.env''"] getExecutablePath_cases [of h]
  by (auto simp: start_def Let_def spawned_do_actions spawned_process_exit
      status_do_actions status_process_exit) (simp_all add: spawned_def)

lemma ended_at_start:
  assumes "status (start h) = Some n"
  shows "status (run_launcher h evs) = Some n \<and> \<not> spawned (run_launcher h evs)"
proof -
  have "run_launcher h evs = start h"
    using assms by (simp add: run_launcher_def handle_ended)
  with assms show ?thesis by (simp add: start_spawned_iff)
qed

lemmas launcher_defs = run_launcher_def start_def loadEnv_def getExecutablePath_def
  platformMap_def archMap_def parse_env_def split_on_def env_line_defs
  do_actions_def process_exit_def handle_def code_or_0_def spawned_def
  config_info_def or_else_def pop_def is_path_sep_def is_signal_def

text \<open>
  Claim C8. If there is no file at the path of the configuration file, the launcher ends
  with exit status 1, which is not zero, whatever events would follow, and it has not
  called \<open>spawn\<close>.
\<close>

theorem missing_config_exits:
  assumes "\<not> h_existsSync h (h_join h (h_dirname h) ''.env'')"
  shows "status (run_launcher h evs) = Some 1 \<and> (1::int) \<noteq> 0 \<and>
         \<not> spawned (run_launcher h evs)"
proof -
  have "status (start h) = Some 1"
    using assms by (simp add: start_def loadEnv_def status_process_exit)
  then show ?thesis using ended_at_start [of h 1 evs] by simp
qed

theorem missing_config_exits_witness:
  "status (run_launcher (linux_host\<lparr>h_existsSync := (\<lambda>p. False)\<rparr>) [ChildExit (Some 0) None])
     = Some 1 \<and>
   \<not> spawned (run_launcher (linux_host\<lparr>h_existsSync := (\<lambda>p. False)\<rparr>) [ChildExit (Some 0) None])"
  using missing_config_exits [of "linux_host\<lparr>h_existsSync := (\<lambda>p. False)\<rparr>" "[ChildExit (Some 0) None]"]
  by (simp add: linux_host_def)

subsection \<open>The name of the executable\<close>

lemmas name_defs = getExecutablePath_def platformMap_def archMap_def truthy_def
  binaryName_def or_else_def osMap_def build_archMap_def

text \<open>
  Claim C9. The name of the executable is computed from the platform and the
  architecture of the host alone. On \<open>(win32, x64)\<close> the launcher looks for, and
  returns the path of, the file \<open>new-api-windows-amd64.exe\<close> in its directory; on
  \<open>(linux, arm64)\<close> the file \<open>new-api-linux-arm64\<close>, without extension. The build
  pipeline gives its output the same names for these two targets.
\<close>

theorem executable_name_by_host:
  "(h_platform h = ''win32'' \<and> h_arch h = ''x64'' \<longrightarrow>
      getExecutablePath h =
        (if h_existsSync h (h_join h (h_dirname h) ''new-api-windows-amd64.exe'')
         then ([], Return (h_join h (h_dirname h) ''new-api-windows-amd64.exe''))
         else ([Print (ExeNotFound ''new-api-windows-amd64.exe'' (h_dirname h))], Exit 1))) \<and>
   (h_platform h = ''linux'' \<and> h_arch h = ''arm64'' \<longrightarrow>
      getExecutablePath h =
        (if h_existsSync h (h_join h (h_dirname h) ''new-api-linux-arm64'')
         then ([], Return (h_join h (h_dirname h) ''new-api-linux-arm64''))
         else ([Print (ExeNotFound ''new-api-linux-arm64'' (h_dirname h))], Exit 1))) \<and>
   binaryName (or_else (osMap ''win32'') ''win32'') (or_else (build_archMap ''x64'') ''x64'') =
     ''new-api-windows-amd64.exe'' \<and>
   binaryName (or_else (osMap ''linux'') ''linux'') (or_else (build_archMap ''arm64'') ''arm64'') =
     ''new-api-linux-arm64''"
  by (simp add: name_defs)

theorem executable_name_by_host_witness:
  "getExecutablePath (linux_host\<lparr>h_platform := ''win32''\<rparr>) =
     ([], Return ''/opt/new-api/new-api-windows-amd64.exe'') \<and>
   getExecutablePath (linux_host\<lparr>h_arch := ''arm64''\<rparr>) =
     ([], Return ''/opt/new-api/new-api-linux-arm64'')"
  using executable_name_by_host [of "linux_host\<lparr>h_platform := ''win32''\<rparr>"]
    executable_name_by_host [of "linux_host\<lparr>h_arch := ''arm64''\<rparr>"]
  by (simp add: linux_host_def)

text \<open>
  Claim C10. The launcher's table of architectures has the two entries \<open>x64\<close> and
  \<open>arm64\<close>. On a host of any other architecture, \<open>ia32\<close> for one, \<open>getExecutablePath\<close>
  prints that the platform is not supported and ends the process with status 1, and the
  launcher ends with status 1 without having called \<open>spawn\<close>. The table of the build
  pipeline does map \<open>ia32\<close>, to \<open>386\<close>, so that the pipeline names an artifact
  \<open>new-api-linux-386\<close> for which the launcher has no entry.
\<close>

theorem unsupported_arch_exits:
  assumes "h_arch h \<notin> {''x64'', ''arm64''}"
  shows "dom archMap = {''x64'', ''arm64''} \<and>
         getExecutablePath h = ([Print (UnsupportedPlatform (h_platform h) (h_arch h))], Exit 1) \<and>
         status (run_launcher h evs) = Some 1 \<and>
         \<not> spawned (run_launcher h evs) \<and>
         binaryName (or_else (osMap ''linux'') ''linux'')
                    (or_else (build_archMap ''ia32'') ''ia32'') = ''new-api-linux-386''"
proof -
  have g: "getExecutablePath h = ([Print (UnsupportedPlatform (h_platform h) (h_arch h))], Exit 1)"
    using assms by (simp add: getExecutablePath_def Let_def archMap_def split: option.split)
  have "status (start h) = Some 1"
    using loadEnv_cases [of h "h_join h (h_dirname h) ''.env''"] g
    by (auto simp: start_def Let_def status_process_exit)
  then have "status (run_launcher h evs) = Some 1 \<and> \<not> spawned (run_launcher h evs)"
    by (rule ended_at_start)
  moreover have "dom archMap = {''x64'', ''arm64''}"
    by (auto simp: archMap_def)
  ultimately show ?thesis using g by (simp add: name_defs)
qed

theorem unsupported_arch_exits_witness:
  "getExecutablePath (linux_host\<lparr>h_arch := ''ia32''\<rparr>) =
     ([Print (UnsupportedPlatform ''linux'' ''ia32'')], Exit 1) \<and>
   status (run_launcher (linux_host\<lparr>h_arch := ''ia32''\<rparr>) [ChildExit (Some 0) None]) = Some 1 \<and>
   \<not> spawned (run_launcher (linux_host\<lparr>h_arch := ''ia32''\<rparr>) [ChildExit (Some 0) None])"
  using unsupported_arch_exits [of "linux_host\<lparr>h_arch := ''ia32''\<rparr>" "[ChildExit (Some 0) None]"]
  by (simp add: linux_host_def)

subsection \<open>The exit status\<close>

text \<open>
  A run in which the child is ended by a signal: the host has every file, the child is
  started, and its \<open>exit\<close> event carries no code and the signal \<open>SIGTERM\<close>. The launcher
  ends with status 0.
\<close>

theorem launcher_signal_exit_counterexample:
  "spawned (run_launcher linux_host [ChildExit None (Some ''SIGTERM'')]) \<and>
   status (run_launcher linux_host [ChildExit None (Some ''SIGTERM'')]) = Some 0"
  by (simp add: linux_host_def launcher_defs)

text \<open>
  Claim C1, as the code has it. In a run in which the child was started, signals that
  reach the launcher before the child ends are passed on and do not end the launcher.
  When the child exits with a code, the launcher ends with that code as its exit status.
  When the child is ended by a signal, its \<open>exit\<close> event carries no code, and the
  launcher ends with exit status 0, the value of \<open>code || 0\<close>.
\<close>

theorem launcher_relays_exit_code:
  assumes "spawned (start h)" and "\<forall>e \<in> set pre. is_signal e"
  shows "status (run_launcher h (pre @ ChildExit (Some c) sg # post)) = Some c \<and>
         status (run_launcher h (pre @ ChildExit None sg' # post)) = Some 0"
proof -
  have running: "status (foldl handle (start h) pre) = None"
    using assms by (simp add: handle_signals start_spawned_iff)
  have "status (run_launcher h (pre @ ChildExit code s # post)) = Some (code_or_0 code)"
    for code s
    unfolding run_launcher_def foldl_append foldl_Cons
    using status_on_exit [OF running, of code s]
    by (simp add: handle_ended)
  from this [of "Some c" sg] this [of None sg'] show ?thesis
    by (simp add: code_or_0_def)
qed

theorem launcher_relays_exit_code_witness:
  "status (run_launcher linux_host ([SIGINT] @ ChildExit (Some 3) None # [SIGTERM])) = Some 3 \<and>
   status (run_launcher linux_host ([SIGINT] @ ChildExit None (Some ''SIGINT'') # [SIGTERM]))
     = Some 0"
proof -
  have "spawned (start linux_host)"
    by (simp add: linux_host_def launcher_defs)
  moreover have "\<forall>e \<in> set [SIGINT]. is_signal e"
    by (simp add: is_signal_def)
  ultimately show ?thesis by (rule launcher_relays_exit_code)
qed


section \<open>Properties of the process runner\<close>

lemma promise_show_progress [simp]: "promise (show_progress st r) = promise r"
  by (simp add: show_progress_def split: prod.split)

lemma promise_parseOutput [simp]: "promise (parseOutput text r) = promise r"
  by (simp add: parseOutput_def Let_def split: prod.split)

lemma promise_parseGoOutput [simp]: "promise (parseGoOutput text r) = promise r"
  by (simp add: parseGoOutput_def Let_def)

lemma promise_resolve:
  "promise (resolve b r) = (if promise r = Pending then Resolved b else promise r)"
  by (simp add: resolve_def)

text \<open>Output and ticks leave the promise as it is.\<close>

lemma npm_output_keeps: "is_output e \<Longrightarrow> promise (npm_event r e) = promise r"
  by (cases e) (simp_all add: Let_def)

lemma go_output_keeps: "is_output e \<Longrightarrow> promise (go_event r e) = promise r"
  by (cases e) (simp_all add: Let_def)

text \<open>A settled promise stays as it is, whatever event follows.\<close>

lemma npm_settled_keeps: "promise r \<noteq> Pending \<Longrightarrow> promise (npm_event r e) = promise r"
  by (cases e) (simp_all add: Let_def promise_resolve split: prod.split)

lemma go_settled_keeps: "promise r \<noteq> Pending \<Longrightarrow> promise (go_event r e) = promise r"
  by (cases e) (simp_all add: Let_def promise_resolve split: prod.split)

lemma npm_settled_run:
  "promise r \<noteq> Pending \<Longrightarrow> promise (foldl npm_event r evs) = promise r"
  by (induction evs arbitrary: r) (simp_all add: npm_settled_keeps)

lemma go_settled_run:
  "promise r \<noteq> Pending \<Longrightarrow> promise (foldl go_event r evs) = promise r"
  by (induction evs arbitrary: r) (simp_all add: go_settled_keeps)

text \<open>The first \<open>close\<close> or \<open>error\<close> event settles a pending promise.\<close>

lemma npm_ending:
  "promise r = Pending \<Longrightarrow> \<not> is_output e \<Longrightarrow> promise (npm_event r e) = verdict (Some e)"
  by (cases e) (simp_all add: Let_def promise_resolve split: prod.split)

lemma go_ending:
  "promise r = Pending \<Longrightarrow> \<not> is_output e \<Longrightarrow> promise (go_event r e) = verdict (Some e)"
  by (cases e) (simp_all add: Let_def promise_resolve split: prod.split)

lemma verdict_ending: "\<not> is_output e \<Longrightarrow> verdict (Some e) \<noteq> Pending"
  by (cases e) simp_all

lemma verdict_not_rejected: "verdict x \<noteq> Rejected"
  by (cases x rule: verdict.cases) simp_all

lemma npm_promise_fold:
  "promise r = Pending \<Longrightarrow> promise (foldl npm_event r evs) = verdict (outcome evs)"
proof (induction evs arbitrary: r)
  case Nil
  then show ?case by (simp add: outcome_def)
next
  case (Cons e evs)
  show ?case
  proof (cases "is_output e")
    case True
    with Cons show ?thesis by (simp add: outcome_def npm_output_keeps)
  next
    case False
    with Cons.prems have "promise (npm_event r e) = verdict (Some e)"
      by (simp add: npm_ending)
    then show ?thesis
      using False verdict_ending [OF False] by (simp add: outcome_def npm_settled_run)
  qed
qed

lemma go_promise_fold:
  "promise r = Pending \<Longrightarrow> promise (foldl go_event r evs) = verdict (outcome evs)"
proof (induction evs arbitrary: r)
  case Nil
  then show ?case by (simp add: outcome_def)
next
  case (Cons e evs)
  show ?case
  proof (cases "is_output e")
    case True
    with Cons show ?thesis by (simp add: outcome_def go_output_keeps)
  next
    case False
    with Cons.prems have "promise (go_event r e) = verdict (Some e)"
      by (simp add: go_ending)
    then show ?thesis
      using False verdict_ending [OF False] by (simp add: outcome_def go_settled_run)
  qed
qed

lemma spawn_valid: "\<not> invalid_command cmd \<Longrightarrow> spawn cmd answer = answer"
  by (simp add: spawn_def)

lemma spawn_invalid: "invalid_command cmd \<Longrightarrow> spawn cmd answer = SpawnThrows"
  by (simp add: spawn_def)

lemma promise_thrown: "promise thrown_runner = Rejected"
  by (simp add: thrown_runner_def)

lemma npm_promise:
  "promise (execWithProgress_run cmd (Child evs)) =
     (if invalid_command cmd then Rejected else verdict (outcome evs))"
  by (simp add: execWithProgress_run_def spawn_def promise_thrown npm_promise_fold new_runner_def)

lemma go_promise:
  "promise (execGoWithProgress_run cmd (Child evs)) =
     (if invalid_command cmd then Rejected else verdict (outcome evs))"
  by (simp add: execGoWithProgress_run_def spawn_def promise_thrown go_promise_fold new_runner_def)

lemma npm_promise_throws: "promise (execWithProgress_run cmd SpawnThrows) = Rejected"
  by (simp add: execWithProgress_run_def spawn_def promise_thrown)

lemma go_promise_throws: "promise (execGoWithProgress_run cmd SpawnThrows) = Rejected"
  by (simp add: execGoWithProgress_run_def spawn_def promise_thrown)

lemma outcome_decomp:
  "\<forall>e \<in> set pre. is_output e \<Longrightarrow> \<not> is_output t \<Longrightarrow> outcome (pre @ t # post) = Some t"
  by (simp add: outcome_def dropWhile_append)



lemmas runner_defs = execWithProgress_run_def execGoWithProgress_run_def spawn_def
  invalid_command_def thrown_runner_def new_runner_def
  new_ProgressBar_def show_progress_def update_def complete_def clear_def render_def
  resolve_def parseOutput_def parseGoOutput_def classify_def split_on_def pop_def
  trim_def is_ws_def truthy_def outcome_def

text \<open>
  When \<open>spawn\<close> returns a child, the promise of either runner is never rejected. When
  the child closes, after any output and any ticks of the timer, the promise is resolved
  to \<open>true\<close> if the exit code is 0 and to \<open>false\<close> for every other code (and for a child
  ended by a signal, which has no code). When the \<open>error\<close> event reports that the command
  could not be started, the promise is resolved to \<open>false\<close>. Events after the first
  \<open>close\<close> or \<open>error\<close> change nothing.
\<close>

lemma runner_settles_by_exit_code:
  assumes "\<not> invalid_command cmd"
  shows "promise (execWithProgress_run cmd (Child evs)) \<noteq> Rejected \<and>
         promise (execGoWithProgress_run cmd (Child evs)) \<noteq> Rejected \<and>
         ((\<forall>e \<in> set before. is_output e) \<longrightarrow>
            promise (execWithProgress_run cmd (Child (before @ Close code # later))) =
              Resolved (code = Some 0) \<and>
            promise (execGoWithProgress_run cmd (Child (before @ Close code # later))) =
              Resolved (code = Some 0) \<and>
            promise (execWithProgress_run cmd (Child (before @ Error msg # later))) =
              Resolved False \<and>
            promise (execGoWithProgress_run cmd (Child (before @ Error msg # later))) =
              Resolved False)"
  using assms by (simp add: npm_promise go_promise verdict_not_rejected outcome_decomp)

text \<open>
  Claim C5. Two runs of a runner for the same command whose children end in the same
  way, with the same first \<open>close\<close> event (the same exit code) or the same first \<open>error\<close>
  event, or that both never end, leave the promise in the same state, whatever the
  children wrote to their output streams and however often the timer ticked. The text of
  the output reaches the label and the value of the progress bar only.
\<close>

theorem runner_result_ignores_output:
  assumes "outcome evs = outcome evs'"
  shows "promise (execWithProgress_run cmd (Child evs)) =
           promise (execWithProgress_run cmd (Child evs')) \<and>
         promise (execGoWithProgress_run cmd (Child evs)) =
           promise (execGoWithProgress_run cmd (Child evs'))"
  using assms by (simp add: npm_promise go_promise)

theorem runner_result_ignores_output_witness:
  "outcome [Stdout ''reify:lodash: timing'', Close (Some 0)] =
     outcome [Stderr ''npm error fetch failed'', Tick, Close (Some 0), Tick] \<and>
   promise (execWithProgress_run ''npm install''
              (Child [Stdout ''reify:lodash: timing'', Close (Some 0)])) =
     promise (execWithProgress_run ''npm install''
                (Child [Stderr ''npm error fetch failed'', Tick, Close (Some 0), Tick])) \<and>
   promise (execWithProgress_run ''npm install''
              (Child [Stdout ''reify:lodash: timing'', Close (Some 0)])) = Resolved True \<and>
   screen (execWithProgress_run ''npm install''
             (Child [Stdout ''reify:lodash: timing'', Close (Some 0)])) \<noteq>
     screen (execWithProgress_run ''npm install''
               (Child [Stderr ''npm error fetch failed'', Tick, Close (Some 0), Tick]))"
proof -
  have o: "outcome [Stdout ''reify:lodash: timing'', Close (Some 0)] =
             outcome [Stderr ''npm error fetch failed'', Tick, Close (Some 0), Tick]"
    by (simp add: outcome_def)
  have "screen (execWithProgress_run ''npm install''
             (Child [Stdout ''reify:lodash: timing'', Close (Some 0)])) \<noteq>
     screen (execWithProgress_run ''npm install''
               (Child [Stderr ''npm error fetch failed'', Tick, Close (Some 0), Tick]))"
    by (simp add: runner_defs)
  moreover have "promise (execWithProgress_run ''npm install''
              (Child [Stdout ''reify:lodash: timing'', Close (Some 0)])) = Resolved True"
    by (simp add: npm_promise invalid_command_def outcome_def)
  ultimately show ?thesis
    using o runner_result_ignores_output [OF o, of "''npm install''"] by simp
qed


section \<open>Properties of the build pipeline\<close>

subsection \<open>Which functions call \<open>buildBackend\<close>\<close>

text \<open>
  The record of calls is extended by \<open>buildBackend\<close>, once for each call, and by nothing
  else.
\<close>

lemma invoked_tick [simp]: "invoked (tick w) = invoked w"
  by (simp add: tick_def)

lemma invoked_say [simp]: "invoked (say ls w) = invoked w"
  by (simp add: say_def)

lemma invoked_log [simp]: "invoked (log lv msg w) = invoked w"
  by (simp add: log_def)

lemma invoked_act [simp]: "invoked (act e w) = invoked w"
  by (simp add: act_def)

lemma invoked_ran [simp]: "invoked (ran cmd cwd env r w) = invoked w"
  by (simp add: ran_def)

lemma invoked_existsSync [simp]: "invoked (snd (existsSync orc p w)) = invoked w"
  by (simp add: existsSync_def)

lemma invoked_writeFileSync [simp]: "invoked (snd (writeFileSync orc p c w)) = invoked w"
  by (simp add: writeFileSync_def)

lemma invoked_mkdirSync [simp]: "invoked (snd (mkdirSync orc p w)) = invoked w"
  by (simp add: mkdirSync_def)

lemma invoked_checkCommand [simp]: "invoked (snd (checkCommand orc cmd w)) = invoked w"
  by (simp add: checkCommand_def Let_def)

lemma invoked_setupNpmMirror [simp]: "invoked (snd (setupNpmMirror orc w)) = invoked w"
  by (simp add: setupNpmMirror_def Let_def case_prod_unfold)

lemma invoked_getVersion [simp]: "invoked (snd (getVersion orc w)) = invoked w"
  by (simp add: getVersion_def Let_def case_prod_unfold split: option.split)

lemma invoked_execWithProgress [simp]:
  "invoked (snd (execWithProgress orc cmd cwd env w)) = invoked w"
  by (simp add: execWithProgress_def Let_def)

lemma invoked_execGoWithProgress [simp]:
  "invoked (snd (execGoWithProgress orc cmd cwd env w)) = invoked w"
  by (simp add: execGoWithProgress_def Let_def)

lemma invoked_exec [simp]: "invoked (snd (exec orc cmd cwd env w)) = invoked w"
  by (simp add: exec_def Let_def split: option.split)

lemma invoked_buildWeb_assets [simp]:
  "invoked (snd (buildWeb_assets orc version w)) = invoked w"
  by (simp add: buildWeb_assets_def Let_def case_prod_unfold)

lemma checkCommand_invokedD: "checkCommand orc c w = (b, w') \<Longrightarrow> invoked w' = invoked w"
  using invoked_checkCommand [of orc c w] by simp

lemma getVersion_invokedD: "getVersion orc w = (v, w') \<Longrightarrow> invoked w' = invoked w"
  using invoked_getVersion [of orc w] by simp

lemma existsSync_invokedD: "existsSync orc p w = (b, w') \<Longrightarrow> invoked w' = invoked w"
  using invoked_existsSync [of orc p w] by simp

lemma setupNpmMirror_invokedD: "setupNpmMirror orc w = (b, w') \<Longrightarrow> invoked w' = invoked w"
  using invoked_setupNpmMirror [of orc w] by simp

lemma mkdir_invokedD:
  "(if c then mkdirSync orc p w else (True, w)) = (b, w') \<Longrightarrow> invoked w' = invoked w"
  using invoked_mkdirSync [of orc p w] by (cases c) auto

lemma execNpm_invokedD:
  "execWithProgress orc cmd cwd env w = (b, w') \<Longrightarrow> invoked w' = invoked w"
  using invoked_execWithProgress [of orc cmd cwd env w] by simp

lemma execGo_invokedD:
  "execGoWithProgress orc cmd cwd env w = (b, w') \<Longrightarrow> invoked w' = invoked w"
  using invoked_execGoWithProgress [of orc cmd cwd env w] by simp

lemmas invokedD = checkCommand_invokedD getVersion_invokedD existsSync_invokedD
  setupNpmMirror_invokedD mkdir_invokedD execNpm_invokedD execGo_invokedD

lemma invoked_buildWeb: "invoked (snd (buildWeb orc w)) = invoked w"
  apply (simp only: buildWeb_def Let_def)
  apply (simp only: split: prod.split)
  apply (intro allI impI)
  apply (drule invokedD)+
  apply (simp split: result.split bool.split)
  done

lemma invoked_buildBackend:
  "invoked (snd (buildBackend orc targetOS targetArch w)) = invoked w @ [(targetOS, targetArch)]"
  apply (simp only: buildBackend_def Let_def)
  apply (simp only: split: prod.split)
  apply (intro allI impI)
  apply (drule invokedD)+
  apply (simp split: result.split bool.split)
  done

text \<open>
  The command that asks for Go is run once in every call of \<open>buildBackend\<close>, however the
  call ends, and by nothing else.
\<close>

lemma go_checks_tick [simp]: "go_checks (tick w) = go_checks w"
  by (simp add: tick_def go_checks_def)

lemma go_checks_say [simp]: "go_checks (say ls w) = go_checks w"
  by (simp add: say_def go_checks_def)

lemma go_checks_log [simp]: "go_checks (log lv msg w) = go_checks w"
  by (simp add: log_def)

lemma go_checks_act:
  "go_checks (act e w) = (if is_go_check e then Suc (go_checks w) else go_checks w)"
  by (simp add: act_def go_checks_def)

lemma go_checks_invoked [simp]: "go_checks (w\<lparr>invoked := i\<rparr>) = go_checks w"
  by (simp add: go_checks_def)

lemma go_checks_ran [simp]: "go_checks (ran cmd cwd env r w) = go_checks w"
  by (simp add: ran_def go_checks_act)


lemma go_checks_writeFileSync [simp]: "go_checks (snd (writeFileSync orc p c w)) = go_checks w"
  by (simp add: writeFileSync_def go_checks_act)







lemma go_checks_exec [simp]: "go_checks (snd (exec orc cmd cwd env w)) = go_checks w"
  by (simp add: exec_def Let_def go_checks_act split: option.split)

lemma go_checks_buildWeb_assets [simp]:
  "go_checks (snd (buildWeb_assets orc version w)) = go_checks w"
  by (simp add: buildWeb_assets_def Let_def case_prod_unfold)











subsection \<open>Calls that settle\<close>




subsection \<open>The loop over the targets\<close>








lemmas pipeline_defs = buildWeb_def existsSync_def getVersion_def setupNpmMirror_def
  writeFileSync_def buildWeb_assets_def exec_def log_def say_def act_def tick_def
  webDir_def versionFile_def trim_def is_ws_def truthy_def

lemmas backend_defs = buildBackend_def checkCommand_def mkdirSync_def
  execGoWithProgress_def execGoWithProgress_run_def spawn_def invalid_command_def
  thrown_runner_def ran_def new_runner_def new_ProgressBar_def
  show_progress_def update_def complete_def clear_def render_def resolve_def parseGoOutput_def
  outputDir_def or_else_def osMap_def build_archMap_def binaryName_def
  mirrors_goproxy_def mirrors_gosumdb_def

lemma build_host_terminating: "terminating build_host"
  by (simp add: terminating_def build_host_def outcome_def)







subsection \<open>The claims about the pipeline\<close>






text \<open>
  Claim C4, where the code departs from it. The promise of a runner is rejected when
  \<open>spawn\<close> throws, because \<open>spawn\<close> is called in the executor with no \<open>try\<close>: for the
  empty command, for a command with a NUL character, and whenever the outside makes
  \<open>spawn\<close> throw. The text of the file \<open>VERSION\<close> reaches the command of the Go compiler:
  with a NUL character in that file, \<open>go mod tidy\<close> is run and succeeds, the command
  \<open>go build\<close> is refused by \<open>spawn\<close>, and \<open>buildBackend\<close> throws instead of returning
  \<open>false\<close>.
\<close>

theorem runner_rejects_when_spawn_throws:
  "promise (execWithProgress_run [] (Child [Close (Some 0)])) = Rejected \<and>
   promise (execGoWithProgress_run (''go build -ldflags v1'' @ [CHR 0x00])
              (Child [Close (Some 0)])) = Rejected \<and>
   promise (execWithProgress_run ''npm install'' SpawnThrows) = Rejected \<and>
   promise (execGoWithProgress_run ''go mod tidy'' SpawnThrows) = Rejected \<and>
   fst (buildBackend nul_host ''linux'' ''x64'' fresh) = Throws \<and>
   fst (buildBackend build_host ''linux'' ''x64'' fresh) = Returns True"
proof -
  have "fst (buildBackend nul_host ''linux'' ''x64'' fresh) = Throws"
    by (simp add: nul_host_def build_host_def fresh_def pipeline_defs backend_defs Let_def)
  moreover have "fst (buildBackend build_host ''linux'' ''x64'' fresh) = Returns True"
    by (simp add: build_host_def fresh_def pipeline_defs backend_defs Let_def)
  ultimately show ?thesis
    by (simp add: npm_promise go_promise npm_promise_throws go_promise_throws
        invalid_command_def)
qed

text \<open>
  Claim C6. In a run of \<open>buildAll\<close> in which \<open>buildWeb\<close> returns \<open>false\<close>, \<open>buildAll\<close>
  returns \<open>false\<close> and \<open>buildBackend\<close> is not called. A run of \<open>buildAll\<close> calls
  \<open>buildBackend\<close> only if \<open>buildWeb\<close> has returned \<open>true\<close>, and then once, after it, for
  the platform and architecture of the host.
\<close>

theorem buildAll_short_circuit:
  "(fst (buildWeb orc (log Title ''full build'' w)) = Returns False \<longrightarrow>
      fst (buildAll orc w) = Returns False \<and> invoked (snd (buildAll orc w)) = invoked w) \<and>
   (invoked (snd (buildAll orc w)) \<noteq> invoked w \<longrightarrow>
      fst (buildWeb orc (log Title ''full build'' w)) = Returns True \<and>
      invoked (snd (buildAll orc w)) = invoked w @ [(o_platform orc, o_arch orc)])"
proof -
  define w1 where "w1 = log Title ''full build'' w"
  obtain r w2 where bw: "buildWeb orc w1 = (r, w2)"
    by (cases "buildWeb orc w1")
  have i2: "invoked w2 = invoked w"
    using invoked_buildWeb [of orc w1] bw by (simp add: w1_def)
  have "r \<noteq> Returns True \<Longrightarrow> invoked (snd (buildAll orc w)) = invoked w"
    using bw i2 by (auto simp: buildAll_def Let_def w1_def split: result.split bool.split)
  moreover have "r = Returns False \<Longrightarrow> fst (buildAll orc w) = Returns False"
    using bw by (simp add: buildAll_def Let_def w1_def)
  moreover have "r = Returns True \<Longrightarrow>
      invoked (snd (buildAll orc w)) = invoked w @ [(o_platform orc, o_arch orc)]"
    using bw i2 invoked_buildBackend [of orc "o_platform orc" "o_arch orc" w2]
    by (auto simp: buildAll_def Let_def w1_def case_prod_unfold split: result.split bool.split)
  ultimately show ?thesis using bw by (auto simp: w1_def)
qed

theorem buildAll_short_circuit_witness:
  "fst (buildWeb empty_host (log Title ''full build'' fresh)) = Returns False \<and>
   fst (buildAll empty_host fresh) = Returns False \<and>
   invoked (snd (buildAll empty_host fresh)) = [] \<and>
   invoked (snd (buildAll build_host fresh)) = [(''linux'', ''x64'')]"
proof -
  have "fst (buildWeb empty_host (log Title ''full build'' fresh)) = Returns False"
    by (simp add: empty_host_def build_host_def fresh_def pipeline_defs)
  moreover have "invoked (snd (buildAll build_host fresh)) \<noteq> invoked fresh"
    by (simp add: buildAll_def build_host_def fresh_def pipeline_defs backend_defs Let_def)
  ultimately show ?thesis
    using buildAll_short_circuit [of empty_host fresh] buildAll_short_circuit [of build_host fresh]
    by (simp add: fresh_def build_host_def)
qed

end
